theory Spec2Isabelle
  imports Complex_Main
begin

section \<open>Stemify separation service: a shallow embedding of python-api/main.py\<close>

text \<open>
  The service is one request handler, \<open>separate_audio\<close>, with one pure helper,
  \<open>get_stem_name\<close>, and one storage helper, \<open>upload_file_to_supabase\<close>.
  Python strings are \<open>string\<close>, Python's unbounded integers are \<open>int\<close>, and the
  float \<open>overlap\<close> is a \<open>real\<close>: the handler never computes with it, it only copies
  the request's value or stores the literal \<open>0.25\<close>.
\<close>

subsection \<open>Exceptions\<close>

text \<open>
  An exception is a value. The handler only ever looks at \<open>str(e)\<close>, so an exception
  raised by a collaborator carries its message; the one exception the code of this file
  can raise by itself is the \<open>IndexError\<close> of a list subscript.
\<close>

datatype exn = IndexError | RaisedError string

fun str_exn :: "exn \<Rightarrow> string" where
  "str_exn IndexError = ''list index out of range''"
| "str_exn (RaisedError msg) = msg"

subsection \<open>Python primitives used by the source\<close>

text \<open>\<open>s.split(sep)\<close> for a one-character separator: never empty, one more part than
  there are separators.\<close>

fun str_split :: "char \<Rightarrow> string \<Rightarrow> string list" where
  "str_split sep [] = [[]]"
| "str_split sep (c # cs) =
     (if c = sep then [] # str_split sep cs
      else (case str_split sep cs of
              [] \<Rightarrow> [[c]]
            | p # ps \<Rightarrow> (c # p) # ps))"

text \<open>The subscript \<open>xs[i]\<close>: positions \<open>0 .. len - 1\<close> read from the front, positions
  \<open>-len .. -1\<close> from the back, every other position raises \<open>IndexError\<close>.\<close>

definition list_index :: "'a list \<Rightarrow> int \<Rightarrow> exn + 'a" where
  "list_index xs i =
     (if 0 \<le> i \<and> i < int (length xs) then Inr (xs ! nat i)
      else if i < 0 \<and> - int (length xs) \<le> i then Inr (xs ! nat (int (length xs) + i))
      else Inl IndexError)"

text \<open>\<open>str(n)\<close> for an integer, as the f-string \<open>f"stem_{index}"\<close> formats it.\<close>

definition digit_char :: "nat \<Rightarrow> char" where
  "digit_char d = ''0123456789'' ! d"

function str_nat :: "nat \<Rightarrow> string" where
  "str_nat n = (if n < 10 then [digit_char n] else str_nat (n div 10) @ [digit_char (n mod 10)])"
  by pat_completeness auto
termination
  by (relation "measure id") auto

declare str_nat.simps [simp del]

definition str_int :: "int \<Rightarrow> string" where
  "str_int i = (if i < 0 then CHR ''-'' # str_nat (nat (- i)) else str_nat (nat i))"

text \<open>\<open>s.rstrip('?')\<close>: every trailing question mark is removed.\<close>

definition rstrip_char :: "char \<Rightarrow> string \<Rightarrow> string" where
  "rstrip_char c s = rev (dropWhile (\<lambda>x. x = c) (rev s))"

subsection \<open>The request (class SeparationRequest)\<close>

record separation_request =
  audio_url :: string
  model :: string
  two_stems :: string
  overlap :: real
  shifts :: int
  audio_format :: string
  selected_stems :: "string list option"
  quality :: "string option"

subsection \<open>get_stem_name (main.py, lines 244-262)\<close>

definition stem_names_4 :: "string list" where
  "stem_names_4 = [''vocals'', ''drums'', ''bass'', ''other'']"

definition stem_names_6 :: "string list" where
  "stem_names_6 = [''vocals'', ''drums'', ''bass'', ''other'', ''guitar'', ''piano'']"

definition get_stem_name :: "int \<Rightarrow> string \<Rightarrow> string \<Rightarrow> exn + string" where
  "get_stem_name index two_stems_arg model_arg =
     (if two_stems_arg \<noteq> ''None'' then
        (if index = 0 then Inr two_stems_arg else Inr (''no_'' @ two_stems_arg))
      else if model_arg = ''htdemucs_6s'' then
        (if index < int (length stem_names_6) then list_index stem_names_6 index
         else Inr (''stem_'' @ str_int index))
      else
        (if index < int (length stem_names_4) then list_index stem_names_4 index
         else Inr (''stem_'' @ str_int index)))"

subsection \<open>separate_audio: owner identifier (main.py, lines 119-129)\<close>

text \<open>
  The loop over \<open>enumerate(url_parts)\<close>: the first part equal to the marker that has a
  successor (\<open>i + 1 < len(url_parts)\<close>) yields that successor and ends the loop.
\<close>

fun find_user_id :: "string list \<Rightarrow> string option" where
  "find_user_id [] = None"
| "find_user_id (part # rest) =
     (if part = ''audio-files'' \<and> rest \<noteq> [] then Some (hd rest) else find_user_id rest)"

text \<open>\<open>if not user_id\<close> holds for \<open>None\<close> and for the empty string.\<close>

definition extract_user_id :: "string \<Rightarrow> string" where
  "extract_user_id url =
     (case find_user_id (str_split CHR ''/'' url) of
        None \<Rightarrow> ''anonymous''
      | Some u \<Rightarrow> if u = [] then ''anonymous'' else u)"

subsection \<open>separate_audio: parameter resolution (main.py, lines 138-161)\<close>

text \<open>Lines 142-146: a single recognised stem selects two-stem mode.\<close>

definition resolve_two_stems :: "separation_request \<Rightarrow> string" where
  "resolve_two_stems req =
     (case selected_stems req of
        None \<Rightarrow> two_stems req
      | Some stems \<Rightarrow>
          if stems \<noteq> [] \<and> length stems = 1 then
            (let stem = hd stems in
             if stem \<in> set [''vocals'', ''drums'', ''bass'', ''other'', ''guitar'', ''piano'']
             then stem else two_stems req)
          else two_stems req)"

text \<open>Lines 149-151: guitar or piano among the selected stems forces the six-stem model.\<close>

definition resolve_stem_model :: "separation_request \<Rightarrow> string" where
  "resolve_stem_model req =
     (case selected_stems req of
        None \<Rightarrow> model req
      | Some stems \<Rightarrow>
          if stems \<noteq> [] \<and> (''guitar'' \<in> set stems \<or> ''piano'' \<in> set stems)
          then ''htdemucs_6s'' else model req)"

text \<open>Lines 154-161 on top of the two steps above: the four resolved values.\<close>

record resolved =
  res_model :: string
  res_two_stems :: string
  res_overlap :: real
  res_shifts :: int

definition resolve_parameters :: "separation_request \<Rightarrow> resolved" where
  "resolve_parameters req =
     (let model1 = resolve_stem_model req;
          two_stems1 = resolve_two_stems req
      in if quality req = Some ''pro'' then
           \<lparr> res_model = (if model1 = ''htdemucs'' then ''htdemucs_ft'' else model1),
             res_two_stems = two_stems1,
             res_overlap = 0.25,
             res_shifts = 1 \<rparr>
         else
           \<lparr> res_model = model1,
             res_two_stems = two_stems1,
             res_overlap = overlap req,
             res_shifts = shifts req \<rparr>)"

text \<open>The \<open>parameters\<close> object of the response (lines 231-237).\<close>

record parameters =
  param_model :: string
  param_two_stems :: string
  param_overlap :: real
  param_shifts :: int
  param_audio_format :: string

subsection \<open>The collaborators and the world the handler runs in\<close>

text \<open>
  An output handle of the remote call may have no \<open>path\<close> attribute, and the attribute
  may be \<open>None\<close> or a string. The result of the call is iterable or not.
\<close>

datatype output_file = NoPathAttribute | PathAttribute "string option"

datatype run_result = Iterable "output_file list" | NotIterable

text \<open>The keyword arguments of \<open>demucs.run\<close> (lines 171-178).\<close>

record run_args =
  arg_file :: string
  arg_model :: string
  arg_two_stems :: string
  arg_overlap :: real
  arg_shifts :: int
  arg_audio_format :: string

text \<open>
  The storage client: \<open>upload\<close> succeeds or raises, \<open>get_public_url\<close> returns a
  string or (older clients) a dictionary, or raises.
\<close>

datatype public_url_result = UrlString string | UrlDict "string \<rightharpoonup> string"

record storage_client =
  storage_upload :: "string \<Rightarrow> string \<Rightarrow> exn option"
  get_public_url :: "string \<Rightarrow> exn + public_url_result"

text \<open>
  The environment holds the module-level \<open>supabase\<close> client (\<open>None\<close> when no service
  key is configured, lines 27-32), the provider's function registry and the source of
  random identifiers.
\<close>

record env =
  supabase :: "storage_client option"
  sieve_function_get :: "string \<Rightarrow> exn + (run_args \<Rightarrow> exn + run_result)"
  uuid4 :: "nat \<Rightarrow> string"

text \<open>
  The state the handler changes: the local disk as the handler finds it once the remote
  call has returned, the calls made so far to the collaborators (oldest first), and the
  number of identifiers drawn.
\<close>

datatype fs_entry = RegularFile string | Directory

datatype event =
    DemucsRun run_args
  | UploadCall string string string
  | StorageUpload string string

record world =
  fs :: "string \<rightharpoonup> fs_entry"
  trace :: "event list"
  uuid_count :: nat

definition os_path_exists :: "world \<Rightarrow> string \<Rightarrow> bool" where
  "os_path_exists w p = (fs w p \<noteq> None)"

definition read_file :: "world \<Rightarrow> string \<Rightarrow> exn + string" where
  "read_file w p =
     (case fs w p of
        None \<Rightarrow> Inl (RaisedError ''No such file or directory'')
      | Some Directory \<Rightarrow> Inl (RaisedError ''Is a directory'')
      | Some (RegularFile content) \<Rightarrow> Inr content)"

text \<open>\<open>os.remove\<close> inside its own \<open>try\<close> (lines 220-225): a failure is only logged.\<close>

definition os_remove :: "string \<Rightarrow> world \<Rightarrow> world" where
  "os_remove p w =
     (case fs w p of
        Some (RegularFile content) \<Rightarrow> w\<lparr>fs := (fs w)(p := None)\<rparr>
      | _ \<Rightarrow> w)"

fun cleanup_files :: "string list \<Rightarrow> world \<Rightarrow> world" where
  "cleanup_files [] w = w"
| "cleanup_files (p # ps) w = cleanup_files ps (os_remove p w)"

subsection \<open>upload_file_to_supabase (main.py, lines 59-104)\<close>

definition truthy :: "string option \<Rightarrow> bool" where
  "truthy v = (case v of None \<Rightarrow> False | Some s \<Rightarrow> s \<noteq> [])"

definition py_or :: "string option \<Rightarrow> string option \<Rightarrow> string option" where
  "py_or a b = (if truthy a then a else b)"

text \<open>Lines 92-97: read the URL out of a dictionary, strip trailing question marks.\<close>

definition public_url_value :: "public_url_result \<Rightarrow> string option" where
  "public_url_value r =
     (case r of
        UrlString s \<Rightarrow> Some s
      | UrlDict d \<Rightarrow> py_or (py_or (d ''publicURL'') (d ''publicUrl'')) (d ''public_url''))"

definition clean_public_url :: "string option \<Rightarrow> string option" where
  "clean_public_url v =
     (case v of
        None \<Rightarrow> None
      | Some s \<Rightarrow> if s \<noteq> [] \<and> last s = CHR ''?'' then Some (rstrip_char CHR ''?'' s) else Some s)"

text \<open>
  Every exception inside the \<open>try\<close> ends in \<open>return None\<close>; the unconfigured client
  returns \<open>None\<close> before anything else happens. The call itself is recorded first.
\<close>

definition upload_file_to_supabase ::
  "env \<Rightarrow> world \<Rightarrow> string \<Rightarrow> string \<Rightarrow> string \<Rightarrow> string option \<times> world" where
  "upload_file_to_supabase E w file_path stem user_id =
     (let w0 = w\<lparr>trace := trace w @ [UploadCall file_path stem user_id]\<rparr> in
      case supabase E of
        None \<Rightarrow> (None, w0)
      | Some client \<Rightarrow>
          (let file_id = uuid4 E (uuid_count w0);
               w1 = w0\<lparr>uuid_count := Suc (uuid_count w0)\<rparr>;
               storage_path = user_id @ ''/separated/'' @ file_id @ ''_'' @ stem @ ''.wav''
           in case read_file w1 file_path of
                Inl e \<Rightarrow> (None, w1)
              | Inr file_content \<Rightarrow>
                  (let w2 = w1\<lparr>trace := trace w1 @ [StorageUpload storage_path file_content]\<rparr>
                   in case storage_upload client storage_path file_content of
                        Some e \<Rightarrow> (None, w2)
                      | None \<Rightarrow>
                          (case get_public_url client storage_path of
                             Inl e \<Rightarrow> (None, w2)
                           | Inr r \<Rightarrow> (clean_public_url (public_url_value r), w2)))))"

subsection \<open>separate_audio (main.py, lines 110-242)\<close>

record output_entry =
  entry_index :: int
  entry_url :: "string option"
  entry_stem_name :: string

record response =
  resp_status :: string
  resp_message :: string
  resp_output_files :: "output_entry list"
  resp_parameters :: parameters

datatype http_exception = HTTPException nat string

text \<open>Lines 193-196: the local path of an output handle, if it has a non-empty one.\<close>

definition local_file_path :: "output_file \<Rightarrow> string option" where
  "local_file_path f =
     (case f of
        NoPathAttribute \<Rightarrow> None
      | PathAttribute None \<Rightarrow> None
      | PathAttribute (Some p) \<Rightarrow> if p = [] then None else Some p)"

text \<open>
  Lines 189-215, the loop over \<open>enumerate(result)\<close> from position \<open>i\<close> on. It returns
  the entries appended to \<open>output_files\<close> and the paths appended to
  \<open>local_files_to_cleanup\<close>, in order, or the exception that ended it.
\<close>

fun process_outputs ::
  "env \<Rightarrow> string \<Rightarrow> string \<Rightarrow> string \<Rightarrow> nat \<Rightarrow> output_file list \<Rightarrow> world
     \<Rightarrow> (exn + output_entry list \<times> string list) \<times> world" where
  "process_outputs E user_id ts m i [] w = (Inr ([], []), w)"
| "process_outputs E user_id ts m i (f # rest) w =
     (case local_file_path f of
        None \<Rightarrow> process_outputs E user_id ts m (Suc i) rest w
      | Some p \<Rightarrow>
          if os_path_exists w p then
            (case get_stem_name (int i) ts m of
               Inl e \<Rightarrow> (Inl e, w)
             | Inr stem \<Rightarrow>
                 (let (public_url, w1) = upload_file_to_supabase E w p stem user_id;
                      (r, w2) = process_outputs E user_id ts m (Suc i) rest w1
                  in case r of
                       Inl e \<Rightarrow> (Inl e, w2)
                     | Inr (entries, cleanup) \<Rightarrow>
                         (Inr (\<lparr>entry_index = int i, entry_url = public_url,
                                entry_stem_name = stem\<rparr> # entries,
                               p # cleanup), w2)))
          else process_outputs E user_id ts m (Suc i) rest w)"

text \<open>The keyword arguments the handler passes to \<open>demucs.run\<close> (lines 171-178).\<close>

definition demucs_run_args :: "separation_request \<Rightarrow> run_args" where
  "demucs_run_args req =
     (let rp = resolve_parameters req
      in \<lparr> arg_file = audio_url req,
           arg_model = res_model rp,
           arg_two_stems = res_two_stems rp,
           arg_overlap = res_overlap rp,
           arg_shifts = res_shifts rp,
           arg_audio_format = audio_format req \<rparr>)"

text \<open>The \<open>parameters\<close> object the handler returns (lines 231-237).\<close>

definition response_parameters :: "separation_request \<Rightarrow> parameters" where
  "response_parameters req =
     (let rp = resolve_parameters req
      in \<lparr> param_model = res_model rp,
           param_two_stems = res_two_stems rp,
           param_overlap = res_overlap rp,
           param_shifts = res_shifts rp,
           param_audio_format = audio_format req \<rparr>)"

text \<open>The body of the \<open>try\<close> (lines 116-238).\<close>

definition separate_audio_body ::
  "env \<Rightarrow> world \<Rightarrow> separation_request \<Rightarrow> (exn + response) \<times> world" where
  "separate_audio_body E w req =
     (let user_id = extract_user_id (audio_url req);
          rp = resolve_parameters req
      in case sieve_function_get E ''sieve/demucs'' of
           Inl e \<Rightarrow> (Inl e, w)
         | Inr demucs \<Rightarrow>
             (let w1 = w\<lparr>trace := trace w @ [DemucsRun (demucs_run_args req)]\<rparr>
              in case demucs (demucs_run_args req) of
                   Inl e \<Rightarrow> (Inl e, w1)
                 | Inr result \<Rightarrow>
                     (let (r, w2) =
                            (case result of
                               Iterable outs \<Rightarrow>
                                 process_outputs E user_id (res_two_stems rp) (res_model rp) 0 outs w1
                             | NotIterable \<Rightarrow> (Inr ([], []), w1))
                      in case r of
                           Inl e \<Rightarrow> (Inl e, w2)
                         | Inr (entries, cleanup) \<Rightarrow>
                             (Inr \<lparr> resp_status = ''completed'',
                                    resp_message = ''Separation completed successfully'',
                                    resp_output_files = entries,
                                    resp_parameters = response_parameters req \<rparr>,
                              cleanup_files cleanup w2))))"

text \<open>Lines 240-242: any exception of the body becomes an HTTP 500.\<close>

definition separate_audio ::
  "env \<Rightarrow> world \<Rightarrow> separation_request \<Rightarrow> (http_exception + response) \<times> world" where
  "separate_audio E w req =
     (case separate_audio_body E w req of
        (Inl e, w') \<Rightarrow>
          (Inl (HTTPException 500 (''Failed to complete separation: '' @ str_exn e)), w')
      | (Inr r, w') \<Rightarrow> (Inr r, w'))"

text \<open>
  What the framework sends: a returned dictionary is answered with status 200, a raised
  \<open>HTTPException\<close> with its own status code and the body \<open>{"detail": detail}\<close>.
\<close>

definition http_status :: "http_exception + response \<Rightarrow> nat" where
  "http_status r = (case r of Inl (HTTPException code d) \<Rightarrow> code | Inr body \<Rightarrow> 200)"

definition http_detail :: "http_exception + response \<Rightarrow> string option" where
  "http_detail r = (case r of Inl (HTTPException code d) \<Rightarrow> Some d | Inr body \<Rightarrow> None)"

subsection \<open>Vocabulary of the properties\<close>

text \<open>An output handle is readable when it has a non-empty path that exists on disk
  (the test of line 198).\<close>

definition readable :: "world \<Rightarrow> output_file \<Rightarrow> bool" where
  "readable w f = (case local_file_path f of None \<Rightarrow> False | Some p \<Rightarrow> os_path_exists w p)"

text \<open>The readable handles of a result with their positions, counted from \<open>i\<close>.\<close>

definition kept_outputs :: "world \<Rightarrow> nat \<Rightarrow> output_file list \<Rightarrow> (nat \<times> output_file) list" where
  "kept_outputs w i outs = filter (\<lambda>(k, f). readable w f) (enumerate i outs)"

text \<open>The calls of \<open>upload_file_to_supabase\<close> in a trace, as (path, stem, owner), and
  the requests that reached the storage client.\<close>

fun upload_calls :: "event list \<Rightarrow> (string \<times> string \<times> string) list" where
  "upload_calls [] = []"
| "upload_calls (UploadCall p s u # es) = (p, s, u) # upload_calls es"
| "upload_calls (DemucsRun a # es) = upload_calls es"
| "upload_calls (StorageUpload sp c # es) = upload_calls es"

fun storage_uploads :: "event list \<Rightarrow> (string \<times> string) list" where
  "storage_uploads [] = []"
| "storage_uploads (StorageUpload sp c # es) = (sp, c) # storage_uploads es"
| "storage_uploads (DemucsRun a # es) = storage_uploads es"
| "storage_uploads (UploadCall p s u # es) = storage_uploads es"

text \<open>The arguments of the remote separation calls in a trace.\<close>

fun demucs_calls :: "event list \<Rightarrow> run_args list" where
  "demucs_calls [] = []"
| "demucs_calls (DemucsRun a # es) = a # demucs_calls es"
| "demucs_calls (UploadCall p s u # es) = demucs_calls es"
| "demucs_calls (StorageUpload sp c # es) = demucs_calls es"

subsection \<open>Example inputs\<close>

text \<open>The request of the end-to-end scenario, a disk holding two of four announced
  outputs, and three environments: a provider that raises, an unconfigured storage client,
  and a storage client that accepts every upload.\<close>

definition example_request :: separation_request where
  "example_request =
     \<lparr> audio_url = ''https://h/audio-files/U1/song.mp3'', model = ''htdemucs'',
       two_stems = ''None'', overlap = 0.1, shifts = 0, audio_format = ''wav'',
       selected_stems = None, quality = Some ''standard'' \<rparr>"

definition example_world :: world where
  "example_world =
     \<lparr> fs = [''/tmp/a.wav'' \<mapsto> RegularFile ''A'', ''/tmp/c.wav'' \<mapsto> RegularFile ''C''],
       trace = [], uuid_count = 0 \<rparr>"

definition example_outputs :: "output_file list" where
  "example_outputs =
     [PathAttribute (Some ''/tmp/a.wav''), NoPathAttribute, PathAttribute (Some ''/tmp/c.wav''),
      PathAttribute (Some ''/tmp/missing.wav'')]"

definition failing_env :: env where
  "failing_env =
     \<lparr> supabase = None,
       sieve_function_get = (\<lambda>name. Inr (\<lambda>args. Inl (RaisedError ''quota exceeded''))),
       uuid4 = (\<lambda>n. ''id'') \<rparr>"

definition unconfigured_env :: env where
  "unconfigured_env =
     \<lparr> supabase = None,
       sieve_function_get = (\<lambda>name. Inr (\<lambda>args. Inr (Iterable example_outputs))),
       uuid4 = (\<lambda>n. ''id'') \<rparr>"

definition configured_env :: env where
  "configured_env =
     \<lparr> supabase = Some \<lparr> storage_upload = (\<lambda>sp content. None),
                          get_public_url = (\<lambda>sp. Inr (UrlString (''https://s/'' @ sp @ ''?''))) \<rparr>,
       sieve_function_get = (\<lambda>name. Inr (\<lambda>args. Inr (Iterable example_outputs))),
       uuid4 = (\<lambda>n. ''id'') \<rparr>"

text \<open>A request whose URL has the marker segment twice.\<close>

definition second_marker_request :: separation_request where
  "second_marker_request =
     example_request\<lparr>audio_url := ''https://h/audio-files/U2/audio-files/U1/song.mp3''\<rparr>"

section \<open>Properties\<close>

subsection \<open>The upload helper and the output loop\<close>

lemma upload_fs: "fs (snd (upload_file_to_supabase E w p s u)) = fs w"
  by (simp add: upload_file_to_supabase_def Let_def split: option.splits sum.splits)

lemma upload_calls_append: "upload_calls (xs @ ys) = upload_calls xs @ upload_calls ys"
  by (induction xs rule: upload_calls.induct) simp_all

lemma storage_uploads_append: "storage_uploads (xs @ ys) = storage_uploads xs @ storage_uploads ys"
  by (induction xs rule: storage_uploads.induct) simp_all

lemma demucs_calls_append: "demucs_calls (xs @ ys) = demucs_calls xs @ demucs_calls ys"
  by (induction xs rule: demucs_calls.induct) simp_all

lemma upload_demucs_calls:
  "demucs_calls (trace (snd (upload_file_to_supabase E w p s u))) = demucs_calls (trace w)"
  by (simp add: upload_file_to_supabase_def Let_def demucs_calls_append split: option.splits sum.splits)

lemma upload_trace:
  "upload_calls (trace (snd (upload_file_to_supabase E w p s u))) = upload_calls (trace w) @ [(p, s, u)]"
  by (simp add: upload_file_to_supabase_def Let_def upload_calls_append split: option.splits sum.splits)

lemma upload_unconfigured:
  "supabase E = None \<Longrightarrow>
     upload_file_to_supabase E w p s u = (None, w\<lparr>trace := trace w @ [UploadCall p s u]\<rparr>)"
  by (simp add: upload_file_to_supabase_def)

lemma get_stem_name_nat: "\<exists>s. get_stem_name (int i) ts m = Inr s"
  by (auto simp: get_stem_name_def list_index_def Let_def)

lemma readable_fs: "fs w1 = fs w \<Longrightarrow> readable w1 f = readable w f"
  by (simp add: readable_def os_path_exists_def split: option.splits)

lemma kept_fs: "fs w1 = fs w \<Longrightarrow> kept_outputs w1 i outs = kept_outputs w i outs"
proof -
  assume "fs w1 = fs w"
  then have "readable w1 = readable w"
    by (intro ext) (rule readable_fs)
  then show ?thesis
    by (simp add: kept_outputs_def)
qed





lemma process_outputs_skip:
  "\<not> readable w f \<Longrightarrow>
     process_outputs E u ts m i (f # rest) w = process_outputs E u ts m (Suc i) rest w"
  by (simp add: readable_def split: option.splits)

lemma process_outputs_keep:
  assumes "local_file_path f = Some p" and "os_path_exists w p"
    and "get_stem_name (int i) ts m = Inr stem"
    and "upload_file_to_supabase E w p stem u = (pu, w1)"
    and "process_outputs E u ts m (Suc i) rest w1 = (Inr (entries, cleanup), w')"
  shows "process_outputs E u ts m i (f # rest) w
           = (Inr (\<lparr>entry_index = int i, entry_url = pu, entry_stem_name = stem\<rparr> # entries,
                   p # cleanup), w')"
  using assms by simp

lemma kept_outputs_Nil: "kept_outputs w i [] = []"
  by (simp add: kept_outputs_def)

lemma kept_outputs_Cons:
  "kept_outputs w i (f # rest) =
     (if readable w f then (i, f) # kept_outputs w (Suc i) rest else kept_outputs w (Suc i) rest)"
  by (simp add: kept_outputs_def)

lemma process_outputs_char:
  "\<exists>entries cleanup w'.
      process_outputs E u ts m i outs w = (Inr (entries, cleanup), w')
    \<and> fs w' = fs w
    \<and> map entry_index entries = map (\<lambda>(k, f). int k) (kept_outputs w i outs)
    \<and> map (\<lambda>e. Inr (entry_stem_name e)) entries
        = map (\<lambda>(k, f). get_stem_name (int k) ts m) (kept_outputs w i outs)
    \<and> map Some cleanup = map (\<lambda>(k, f). local_file_path f) (kept_outputs w i outs)
    \<and> upload_calls (trace w')
        = upload_calls (trace w) @ map (\<lambda>(p, e). (p, entry_stem_name e, u)) (zip cleanup entries)
    \<and> demucs_calls (trace w') = demucs_calls (trace w)"
proof (induction outs arbitrary: i w)
  case Nil
  show ?case by (simp add: kept_outputs_Nil)
next
  case (Cons f rest)
  show ?case
  proof (cases "readable w f")
    case False
    then have step: "process_outputs E u ts m i (f # rest) w = process_outputs E u ts m (Suc i) rest w"
      by (rule process_outputs_skip)
    have k: "kept_outputs w i (f # rest) = kept_outputs w (Suc i) rest"
      using False by (simp add: kept_outputs_Cons)
    from Cons.IH [of "Suc i" w] show ?thesis
      unfolding step k .
  next
    case True
    then obtain p where p: "local_file_path f = Some p" and ex: "os_path_exists w p"
      by (auto simp: readable_def split: option.splits)
    obtain stem where stem: "get_stem_name (int i) ts m = Inr stem"
      using get_stem_name_nat by blast
    obtain pu w1 where up: "upload_file_to_supabase E w p stem u = (pu, w1)"
      by (cases "upload_file_to_supabase E w p stem u")
    have fs1: "fs w1 = fs w"
      using upload_fs [of E w p stem u] up by simp
    have tr1: "upload_calls (trace w1) = upload_calls (trace w) @ [(p, stem, u)]"
      using upload_trace [of E w p stem u] up by simp
    have dc1: "demucs_calls (trace w1) = demucs_calls (trace w)"
      using upload_demucs_calls [of E w p stem u] up by simp
    have k1: "kept_outputs w1 (Suc i) rest = kept_outputs w (Suc i) rest"
      using fs1 by (rule kept_fs)
    have k: "kept_outputs w i (f # rest) = (i, f) # kept_outputs w (Suc i) rest"
      using True by (simp add: kept_outputs_Cons)
    from Cons.IH [of "Suc i" w1] obtain entries cleanup w' where
      run: "process_outputs E u ts m (Suc i) rest w1 = (Inr (entries, cleanup), w')"
      and fs': "fs w' = fs w1"
      and idx: "map entry_index entries = map (\<lambda>(k, f). int k) (kept_outputs w1 (Suc i) rest)"
      and nms: "map (\<lambda>e. Inr (entry_stem_name e)) entries
                  = map (\<lambda>(k, f). get_stem_name (int k) ts m) (kept_outputs w1 (Suc i) rest)"
      and cln: "map Some cleanup = map (\<lambda>(k, f). local_file_path f) (kept_outputs w1 (Suc i) rest)"
      and trc: "upload_calls (trace w')
                  = upload_calls (trace w1) @ map (\<lambda>(p, e). (p, entry_stem_name e, u)) (zip cleanup entries)"
      and dcs: "demucs_calls (trace w') = demucs_calls (trace w1)"
      by blast
    let ?e = "\<lparr>entry_index = int i, entry_url = pu, entry_stem_name = stem\<rparr>"
    have step: "process_outputs E u ts m i (f # rest) w = (Inr (?e # entries, p # cleanup), w')"
      using p ex stem up run by (rule process_outputs_keep)
    have c1: "fs w' = fs w"
      using fs' fs1 by simp
    have c2: "map entry_index (?e # entries) = map (\<lambda>(k, f). int k) (kept_outputs w i (f # rest))"
      using idx k k1 by simp
    have c3: "map (\<lambda>e. Inr (entry_stem_name e)) (?e # entries)
                = map (\<lambda>(k, f). get_stem_name (int k) ts m) (kept_outputs w i (f # rest))"
      using nms k k1 stem by simp
    have c4: "map Some (p # cleanup) = map (\<lambda>(k, f). local_file_path f) (kept_outputs w i (f # rest))"
      using cln k k1 p by simp
    have c5: "upload_calls (trace w')
                = upload_calls (trace w)
                    @ map (\<lambda>(p, e). (p, entry_stem_name e, u)) (zip (p # cleanup) (?e # entries))"
      using trc tr1 by simp
    have c6: "demucs_calls (trace w') = demucs_calls (trace w)"
      using dcs dc1 by simp
    from step c1 c2 c3 c4 c5 c6 show ?thesis by blast
  qed
qed

lemma process_outputs_unconfigured:
  "supabase E = None \<Longrightarrow> process_outputs E u ts m i outs w = (Inr (entries, cleanup), w')
     \<Longrightarrow> (\<forall>e \<in> set entries. entry_url e = None) \<and> storage_uploads (trace w') = storage_uploads (trace w)"
proof (induction outs arbitrary: i w entries cleanup w')
  case Nil
  then show ?case by simp
next
  case (Cons f rest)
  show ?case
  proof (cases "readable w f")
    case False
    then have "process_outputs E u ts m i (f # rest) w = process_outputs E u ts m (Suc i) rest w"
      by (rule process_outputs_skip)
    with Cons.prems(2) have "process_outputs E u ts m (Suc i) rest w = (Inr (entries, cleanup), w')"
      by simp
    with Cons.prems(1) show ?thesis by (rule Cons.IH)
  next
    case True
    then obtain p where p: "local_file_path f = Some p" and ex: "os_path_exists w p"
      by (auto simp: readable_def split: option.splits)
    obtain stem where stem: "get_stem_name (int i) ts m = Inr stem"
      using get_stem_name_nat by blast
    let ?w1 = "w\<lparr>trace := trace w @ [UploadCall p stem u]\<rparr>"
    have up: "upload_file_to_supabase E w p stem u = (None, ?w1)"
      using Cons.prems(1) by (rule upload_unconfigured)
    obtain entries1 cleanup1 w2 where
      run: "process_outputs E u ts m (Suc i) rest ?w1 = (Inr (entries1, cleanup1), w2)"
      using process_outputs_char [of E u ts m "Suc i" rest ?w1] by blast
    have "process_outputs E u ts m i (f # rest) w
            = (Inr (\<lparr>entry_index = int i, entry_url = None, entry_stem_name = stem\<rparr> # entries1,
                    p # cleanup1), w2)"
      using p ex stem up run by (rule process_outputs_keep)
    with Cons.prems(2) have res:
      "entries = \<lparr>entry_index = int i, entry_url = None, entry_stem_name = stem\<rparr> # entries1"
      "w' = w2"
      by simp_all
    from Cons.IH [OF Cons.prems(1) run] res show ?thesis
      by (simp add: storage_uploads_append)
  qed
qed

subsection \<open>The handler, case by case\<close>

lemma cleanup_files_trace: "trace (cleanup_files ps w) = trace w"
  by (induction ps arbitrary: w) (simp_all add: os_remove_def split: option.splits fs_entry.splits)

lemma body_get_fails:
  "sieve_function_get E ''sieve/demucs'' = Inl e \<Longrightarrow> separate_audio_body E w req = (Inl e, w)"
  by (simp add: separate_audio_body_def)

lemma body_run_fails:
  "sieve_function_get E ''sieve/demucs'' = Inr demucs \<Longrightarrow> demucs (demucs_run_args req) = Inl e \<Longrightarrow>
     separate_audio_body E w req = (Inl e, w\<lparr>trace := trace w @ [DemucsRun (demucs_run_args req)]\<rparr>)"
  by (simp add: separate_audio_body_def)

lemma body_not_iterable:
  "sieve_function_get E ''sieve/demucs'' = Inr demucs \<Longrightarrow>
   demucs (demucs_run_args req) = Inr NotIterable \<Longrightarrow>
     separate_audio_body E w req =
       (Inr \<lparr> resp_status = ''completed'', resp_message = ''Separation completed successfully'',
              resp_output_files = [], resp_parameters = response_parameters req \<rparr>,
        w\<lparr>trace := trace w @ [DemucsRun (demucs_run_args req)]\<rparr>)"
  by (simp add: separate_audio_body_def)

lemma body_iterable:
  "sieve_function_get E ''sieve/demucs'' = Inr demucs \<Longrightarrow>
   demucs (demucs_run_args req) = Inr (Iterable outs) \<Longrightarrow>
   process_outputs E (extract_user_id (audio_url req)) (res_two_stems (resolve_parameters req))
       (res_model (resolve_parameters req)) 0 outs
       (w\<lparr>trace := trace w @ [DemucsRun (demucs_run_args req)]\<rparr>) = (Inr (entries, cleanup), w2) \<Longrightarrow>
     separate_audio_body E w req =
       (Inr \<lparr> resp_status = ''completed'', resp_message = ''Separation completed successfully'',
              resp_output_files = entries, resp_parameters = response_parameters req \<rparr>,
        cleanup_files cleanup w2)"
  by (simp add: separate_audio_body_def Let_def)

lemma kept_outputs_positions:
  "((k, f) \<in> set (kept_outputs w i outs))
     = (i \<le> k \<and> k < i + length outs \<and> outs ! (k - i) = f \<and> readable w f)"
  by (auto simp: kept_outputs_def in_set_enumerate_eq)

lemma kept_outputs_index:
  "k < length outs \<Longrightarrow>
     (int k \<in> set (map (\<lambda>(j, f). int j) (kept_outputs w 0 outs))) = readable w (outs ! k)"
proof -
  assume k: "k < length outs"
  have "(int k \<in> set (map (\<lambda>(j, f). int j) (kept_outputs w 0 outs)))
          = (\<exists>f. (k, f) \<in> set (kept_outputs w 0 outs))"
    by (force simp: image_iff)
  also have "\<dots> = readable w (outs ! k)"
    using k by (simp add: kept_outputs_positions)
  finally show ?thesis .
qed

lemma separate_audio_success:
  assumes g: "sieve_function_get E ''sieve/demucs'' = Inr demucs"
    and r: "demucs (demucs_run_args req) = Inr (Iterable outs)"
  shows "\<exists>entries cleanup w2.
           separate_audio E w req =
             (Inr \<lparr> resp_status = ''completed'', resp_message = ''Separation completed successfully'',
                    resp_output_files = entries, resp_parameters = response_parameters req \<rparr>,
              cleanup_files cleanup w2)
         \<and> process_outputs E (extract_user_id (audio_url req)) (res_two_stems (resolve_parameters req))
              (res_model (resolve_parameters req)) 0 outs
              (w\<lparr>trace := trace w @ [DemucsRun (demucs_run_args req)]\<rparr>) = (Inr (entries, cleanup), w2)
         \<and> map entry_index entries = map (\<lambda>(k, f). int k) (kept_outputs w 0 outs)
         \<and> map (\<lambda>e. Inr (entry_stem_name e)) entries
             = map (\<lambda>(k, f). get_stem_name (int k) (res_two_stems (resolve_parameters req))
                                (res_model (resolve_parameters req))) (kept_outputs w 0 outs)
         \<and> map Some cleanup = map (\<lambda>(k, f). local_file_path f) (kept_outputs w 0 outs)
         \<and> upload_calls (trace (cleanup_files cleanup w2))
             = upload_calls (trace w)
                 @ map (\<lambda>(p, e). (p, entry_stem_name e, extract_user_id (audio_url req))) (zip cleanup entries)
         \<and> demucs_calls (trace (cleanup_files cleanup w2))
             = demucs_calls (trace w) @ [demucs_run_args req]"
proof -
  let ?w1 = "w\<lparr>trace := trace w @ [DemucsRun (demucs_run_args req)]\<rparr>"
  let ?u = "extract_user_id (audio_url req)"
  let ?ts = "res_two_stems (resolve_parameters req)"
  let ?m = "res_model (resolve_parameters req)"
  from process_outputs_char [of E ?u ?ts ?m 0 outs ?w1] obtain entries cleanup w2 where
    run: "process_outputs E ?u ?ts ?m 0 outs ?w1 = (Inr (entries, cleanup), w2)"
    and idx: "map entry_index entries = map (\<lambda>(k, f). int k) (kept_outputs ?w1 0 outs)"
    and nms: "map (\<lambda>e. Inr (entry_stem_name e)) entries
                = map (\<lambda>(k, f). get_stem_name (int k) ?ts ?m) (kept_outputs ?w1 0 outs)"
    and cln: "map Some cleanup = map (\<lambda>(k, f). local_file_path f) (kept_outputs ?w1 0 outs)"
    and trc: "upload_calls (trace w2)
                = upload_calls (trace ?w1) @ map (\<lambda>(p, e). (p, entry_stem_name e, ?u)) (zip cleanup entries)"
    and dcs: "demucs_calls (trace w2) = demucs_calls (trace ?w1)"
    by blast
  have k: "kept_outputs ?w1 0 outs = kept_outputs w 0 outs"
    by (rule kept_fs) simp
  have body: "separate_audio_body E w req =
       (Inr \<lparr> resp_status = ''completed'', resp_message = ''Separation completed successfully'',
              resp_output_files = entries, resp_parameters = response_parameters req \<rparr>,
        cleanup_files cleanup w2)"
    using g r run by (rule body_iterable)
  have c0: "separate_audio E w req =
       (Inr \<lparr> resp_status = ''completed'', resp_message = ''Separation completed successfully'',
              resp_output_files = entries, resp_parameters = response_parameters req \<rparr>,
        cleanup_files cleanup w2)"
    by (simp add: separate_audio_def body)
  have c4: "upload_calls (trace (cleanup_files cleanup w2))
             = upload_calls (trace w) @ map (\<lambda>(p, e). (p, entry_stem_name e, ?u)) (zip cleanup entries)"
    using trc by (simp add: cleanup_files_trace upload_calls_append)
  have c5: "demucs_calls (trace (cleanup_files cleanup w2)) = demucs_calls (trace w) @ [demucs_run_args req]"
    using dcs by (simp add: cleanup_files_trace demucs_calls_append)
  from c0 run idx nms cln c4 c5 show ?thesis
    unfolding k by blast
qed

subsection \<open>The owner scan and the example inputs\<close>

lemma find_user_id_first:
  "''audio-files'' \<notin> set pre \<Longrightarrow> find_user_id (pre @ ''audio-files'' # u # rest) = Some u"
  by (induction pre) auto

lemma find_user_id_none:
  "''audio-files'' \<notin> set parts \<Longrightarrow> find_user_id parts = None"
  by (induction parts) auto

lemma example_kept:
  "kept_outputs example_world 0 example_outputs
     = [(0, PathAttribute (Some ''/tmp/a.wav'')), (2, PathAttribute (Some ''/tmp/c.wav''))]"
  by (simp add: kept_outputs_def example_outputs_def example_world_def readable_def
        local_file_path_def os_path_exists_def)

lemma example_resolved:
  "res_two_stems (resolve_parameters example_request) = ''None''"
  "res_model (resolve_parameters example_request) = ''htdemucs''"
  "extract_user_id (audio_url example_request) = ''U1''"
  by (simp_all add: resolve_parameters_def resolve_two_stems_def resolve_stem_model_def
        example_request_def extract_user_id_def Let_def)

subsection \<open>Stem names\<close>

text \<open>
  C1, as stated, at its first vector: with the lowercase string \<open>none\<close> as two-stem
  target the namer is in two-stem mode and answers index 0 with the target itself, not
  with \<open>vocals\<close>.
\<close>

theorem get_stem_name_none_lowercase_counterexample:
  "get_stem_name 0 ''none'' ''htdemucs'' = Inr ''none'' \<and> ''none'' \<noteq> ''vocals''"
  by (simp add: get_stem_name_def)

text \<open>
  C1, amended: the sentinel is the string \<open>None\<close>. For every index \<open>i \<ge> 0\<close>, every
  target and every model \<open>get_stem_name\<close> returns a name (it raises only for an index
  below minus the table length); being a function of its three arguments it is
  deterministic. With the sentinel \<open>None\<close>: index 0 of the four-stem model is
  \<open>vocals\<close>, indices 3 and 5 of the six-stem model are \<open>other\<close> and \<open>piano\<close>,
  index 7 of the four-stem model is \<open>stem_7\<close>; with target \<open>vocals\<close> and any model,
  index 0 is \<open>vocals\<close> and index 1 is \<open>no_vocals\<close>.
\<close>

theorem get_stem_name_total_and_vectors:
  "(0 \<le> i \<longrightarrow> (\<exists>s. get_stem_name i t m = Inr s))
   \<and> get_stem_name 0 ''None'' ''htdemucs'' = Inr ''vocals''
   \<and> get_stem_name 3 ''None'' ''htdemucs_6s'' = Inr ''other''
   \<and> get_stem_name 5 ''None'' ''htdemucs_6s'' = Inr ''piano''
   \<and> get_stem_name 7 ''None'' ''htdemucs'' = Inr ''stem_7''
   \<and> get_stem_name 0 ''vocals'' m = Inr ''vocals''
   \<and> get_stem_name 1 ''vocals'' m = Inr ''no_vocals''"
proof -
  have total: "0 \<le> i \<longrightarrow> (\<exists>s. get_stem_name i t m = Inr s)"
    by (auto simp: get_stem_name_def list_index_def Let_def)
  have v1: "get_stem_name 0 ''None'' ''htdemucs'' = Inr ''vocals''"
    by (simp add: get_stem_name_def stem_names_4_def list_index_def)
  have v2: "get_stem_name 3 ''None'' ''htdemucs_6s'' = Inr ''other''"
    by (simp add: get_stem_name_def stem_names_6_def list_index_def)
  have v3: "get_stem_name 5 ''None'' ''htdemucs_6s'' = Inr ''piano''"
    by (simp add: get_stem_name_def stem_names_6_def list_index_def)
  have v4: "get_stem_name 7 ''None'' ''htdemucs'' = Inr ''stem_7''"
    by (simp add: get_stem_name_def stem_names_4_def str_int_def str_nat.simps digit_char_def)
  have v5: "get_stem_name 0 ''vocals'' m = Inr ''vocals''"
    by (simp add: get_stem_name_def)
  have v6: "get_stem_name 1 ''vocals'' m = Inr ''no_vocals''"
    by (simp add: get_stem_name_def)
  from total v1 v2 v3 v4 v5 v6 show ?thesis by blast
qed

theorem get_stem_name_total_and_vectors_witness:
  "(0::int) \<le> 9 \<and> get_stem_name 9 ''None'' ''htdemucs_6s'' = Inr ''stem_9''"
proof -
  have "\<exists>s. get_stem_name 9 ''None'' ''htdemucs_6s'' = Inr s"
    using get_stem_name_total_and_vectors [of 9 "''None''" "''htdemucs_6s''"] by simp
  then show ?thesis
    by (simp add: get_stem_name_def stem_names_6_def str_int_def str_nat.simps digit_char_def)
qed

text \<open>
  C9: the sentinel is exactly the string \<open>None\<close>. For every other target \<open>s\<close>, the
  lowercase \<open>none\<close> included, and every model, index 0 is named \<open>s\<close> and every other
  index \<open>no_\<close> followed by \<open>s\<close>; the model, and with it the name tables, has no
  influence on the result.
\<close>

theorem two_stem_names:
  assumes "s \<noteq> ''None''"
  shows "get_stem_name 0 s m = Inr s
       \<and> (i \<noteq> 0 \<longrightarrow> get_stem_name i s m = Inr (''no_'' @ s))
       \<and> get_stem_name i s m = get_stem_name i s m'"
  using assms by (simp add: get_stem_name_def)

theorem two_stem_names_witness:
  "''none'' \<noteq> ''None''
   \<and> get_stem_name 0 ''none'' ''htdemucs_6s'' = Inr ''none''
   \<and> (2::int) \<noteq> 0
   \<and> get_stem_name 2 ''none'' ''htdemucs_6s'' = Inr ''no_none''"
proof -
  have h: "''none'' \<noteq> ''None''" by simp
  from two_stem_names [OF h, of "''htdemucs_6s''" 2] show ?thesis by simp
qed

subsection \<open>Parameter resolution\<close>

text \<open>
  C2: when the quality is \<open>pro\<close> and the model after the stem-based step is
  \<open>htdemucs\<close>, the resolved model is \<open>htdemucs_ft\<close>, the overlap 0.25 and the shift
  count 1, whatever the request's overlap and shifts; when the quality is anything else
  (or absent), the resolved overlap and shifts are the request's own.
\<close>

theorem pro_quality_resolution:
  "(quality req = Some ''pro'' \<and> resolve_stem_model req = ''htdemucs'' \<longrightarrow>
      res_model (resolve_parameters req) = ''htdemucs_ft''
    \<and> res_overlap (resolve_parameters req) = 0.25
    \<and> res_shifts (resolve_parameters req) = 1)
   \<and> (quality req \<noteq> Some ''pro'' \<longrightarrow>
      res_overlap (resolve_parameters req) = overlap req
    \<and> res_shifts (resolve_parameters req) = shifts req)"
  by (simp add: resolve_parameters_def Let_def)

theorem pro_quality_resolution_witness:
  "res_model (resolve_parameters (example_request\<lparr>quality := Some ''pro''\<rparr>)) = ''htdemucs_ft''
   \<and> res_overlap (resolve_parameters (example_request\<lparr>quality := Some ''pro''\<rparr>)) = 0.25
   \<and> res_shifts (resolve_parameters (example_request\<lparr>quality := Some ''pro''\<rparr>)) = 1
   \<and> res_overlap (resolve_parameters example_request) = 0.1
   \<and> res_shifts (resolve_parameters example_request) = 0"
  using pro_quality_resolution [of "example_request\<lparr>quality := Some ''pro''\<rparr>"]
    pro_quality_resolution [of example_request]
  by (simp add: example_request_def resolve_stem_model_def)

text \<open>
  C3: when the selected stems contain \<open>guitar\<close> or \<open>piano\<close>, the model after the
  stem-based step, the resolved model and the model passed to the remote call are all
  \<open>htdemucs_6s\<close>, for every requested model and every quality, \<open>pro\<close> included.
\<close>

theorem six_stem_model_forced:
  assumes "selected_stems req = Some stems"
    and "''guitar'' \<in> set stems \<or> ''piano'' \<in> set stems"
  shows "resolve_stem_model req = ''htdemucs_6s''
       \<and> res_model (resolve_parameters req) = ''htdemucs_6s''
       \<and> arg_model (demucs_run_args req) = ''htdemucs_6s''"
proof -
  from assms(2) have "stems \<noteq> []" by auto
  with assms have m: "resolve_stem_model req = ''htdemucs_6s''"
    by (simp add: resolve_stem_model_def)
  then show ?thesis
    by (simp add: resolve_parameters_def demucs_run_args_def Let_def)
qed

theorem six_stem_model_forced_witness:
  "res_model (resolve_parameters
      (example_request\<lparr>selected_stems := Some [''vocals'', ''piano''], quality := Some ''pro''\<rparr>))
     = ''htdemucs_6s''"
proof -
  let ?req = "example_request\<lparr>selected_stems := Some [''vocals'', ''piano''], quality := Some ''pro''\<rparr>"
  have h1: "selected_stems ?req = Some [''vocals'', ''piano'']" by simp
  have h2: "''guitar'' \<in> set [''vocals'', ''piano''] \<or> ''piano'' \<in> set [''vocals'', ''piano'']" by simp
  from six_stem_model_forced [OF h1 h2] show ?thesis by simp
qed

text \<open>
  C4: when the selected stems are exactly one entry \<open>s\<close>, the resolved two-stem target is
  \<open>s\<close> if \<open>s\<close> is one of vocals, drums, bass, other, guitar, piano, and the request's
  own \<open>two_stems\<close> otherwise.
\<close>

theorem single_stem_two_stems:
  assumes "selected_stems req = Some [s]"
  shows "(s \<in> {''vocals'', ''drums'', ''bass'', ''other'', ''guitar'', ''piano''} \<longrightarrow>
            res_two_stems (resolve_parameters req) = s)
       \<and> (s \<notin> {''vocals'', ''drums'', ''bass'', ''other'', ''guitar'', ''piano''} \<longrightarrow>
            res_two_stems (resolve_parameters req) = two_stems req)"
  using assms by (simp add: resolve_parameters_def resolve_two_stems_def Let_def)

theorem single_stem_two_stems_witness:
  "res_two_stems (resolve_parameters (example_request\<lparr>selected_stems := Some [''drums'']\<rparr>)) = ''drums''
   \<and> res_two_stems (resolve_parameters (example_request\<lparr>selected_stems := Some [''flute'']\<rparr>)) = ''None''"
proof -
  have h1: "selected_stems (example_request\<lparr>selected_stems := Some [''drums'']\<rparr>) = Some [''drums'']"
    by simp
  have h2: "selected_stems (example_request\<lparr>selected_stems := Some [''flute'']\<rparr>) = Some [''flute'']"
    by simp
  from single_stem_two_stems [OF h1] single_stem_two_stems [OF h2] show ?thesis
    by (simp add: example_request_def)
qed

subsection \<open>Failure of the remote call\<close>

text \<open>
  C5: when the remote separation call raises \<open>e\<close>, the handler raises an HTTP exception
  with status 500 and detail \<open>Failed to complete separation: \<close> followed by \<open>str(e)\<close>;
  there is no response body, the only call recorded is the remote call itself, so no
  upload was attempted and nothing reached the storage client, and the disk is untouched.
\<close>

theorem remote_failure_is_500:
  assumes "sieve_function_get E ''sieve/demucs'' = Inr demucs"
    and "demucs (demucs_run_args req) = Inl e"
  shows "separate_audio E w req =
           (Inl (HTTPException 500 (''Failed to complete separation: '' @ str_exn e)),
            w\<lparr>trace := trace w @ [DemucsRun (demucs_run_args req)]\<rparr>)
       \<and> http_status (fst (separate_audio E w req)) = 500
       \<and> http_detail (fst (separate_audio E w req))
           = Some (''Failed to complete separation: '' @ str_exn e)
       \<and> upload_calls (trace (snd (separate_audio E w req))) = upload_calls (trace w)
       \<and> storage_uploads (trace (snd (separate_audio E w req))) = storage_uploads (trace w)
       \<and> fs (snd (separate_audio E w req)) = fs w"
proof -
  have "separate_audio_body E w req
          = (Inl e, w\<lparr>trace := trace w @ [DemucsRun (demucs_run_args req)]\<rparr>)"
    using assms by (rule body_run_fails)
  then have r: "separate_audio E w req =
           (Inl (HTTPException 500 (''Failed to complete separation: '' @ str_exn e)),
            w\<lparr>trace := trace w @ [DemucsRun (demucs_run_args req)]\<rparr>)"
    by (simp add: separate_audio_def)
  show ?thesis
    unfolding r by (simp add: http_status_def http_detail_def upload_calls_append storage_uploads_append)
qed

theorem remote_failure_is_500_witness:
  "fst (separate_audio failing_env example_world example_request)
     = Inl (HTTPException 500 ''Failed to complete separation: quota exceeded'')
   \<and> upload_calls (trace (snd (separate_audio failing_env example_world example_request))) = []"
proof -
  have g: "sieve_function_get failing_env ''sieve/demucs''
             = Inr (\<lambda>args. Inl (RaisedError ''quota exceeded''))"
    by (simp add: failing_env_def)
  have f: "(\<lambda>args. Inl (RaisedError ''quota exceeded'') :: exn + run_result) (demucs_run_args example_request)
             = Inl (RaisedError ''quota exceeded'')"
    by simp
  from remote_failure_is_500
      [where E = failing_env and req = example_request and w = example_world, OF g f]
  show ?thesis
    by (simp add: example_world_def)
qed

subsection \<open>Outputs and uploads of a successful remote call\<close>

text \<open>
  C6: with no storage client (\<open>supabase\<close> is \<open>None\<close>) every call of
  \<open>upload_file_to_supabase\<close> returns \<open>None\<close> and only records the call; so whenever
  the remote separation call returns, the handler answers with status 200 and a body
  whose status is \<open>completed\<close>, every entry of \<open>output_files\<close> has no URL, and
  nothing reaches the storage client.
\<close>

theorem unconfigured_storage_completes:
  assumes "supabase E = None"
    and "sieve_function_get E ''sieve/demucs'' = Inr demucs"
    and "demucs (demucs_run_args req) = Inr result"
  shows "upload_file_to_supabase E w0 p s u = (None, w0\<lparr>trace := trace w0 @ [UploadCall p s u]\<rparr>)
       \<and> (\<exists>resp w'.
             separate_audio E w req = (Inr resp, w')
           \<and> http_status (fst (separate_audio E w req)) = 200
           \<and> resp_status resp = ''completed''
           \<and> (\<forall>x \<in> set (resp_output_files resp). entry_url x = None)
           \<and> storage_uploads (trace w') = storage_uploads (trace w))"
proof -
  have up: "upload_file_to_supabase E w0 p s u = (None, w0\<lparr>trace := trace w0 @ [UploadCall p s u]\<rparr>)"
    using assms(1) by (rule upload_unconfigured)
  let ?w1 = "w\<lparr>trace := trace w @ [DemucsRun (demucs_run_args req)]\<rparr>"
  have "\<exists>resp w'.
             separate_audio E w req = (Inr resp, w')
           \<and> resp_status resp = ''completed''
           \<and> (\<forall>x \<in> set (resp_output_files resp). entry_url x = None)
           \<and> storage_uploads (trace w') = storage_uploads (trace w)"
  proof (cases result)
    case NotIterable
    with assms(3) have "demucs (demucs_run_args req) = Inr NotIterable" by simp
    with assms(2) have "separate_audio_body E w req =
       (Inr \<lparr> resp_status = ''completed'', resp_message = ''Separation completed successfully'',
              resp_output_files = [], resp_parameters = response_parameters req \<rparr>, ?w1)"
      by (rule body_not_iterable)
    then show ?thesis
      by (simp add: separate_audio_def storage_uploads_append)
  next
    case (Iterable outs)
    with assms(3) have r: "demucs (demucs_run_args req) = Inr (Iterable outs)" by simp
    from separate_audio_success [OF assms(2) r, of w] obtain entries cleanup w2 where
      res: "separate_audio E w req =
             (Inr \<lparr> resp_status = ''completed'', resp_message = ''Separation completed successfully'',
                    resp_output_files = entries, resp_parameters = response_parameters req \<rparr>,
              cleanup_files cleanup w2)"
      and run: "process_outputs E (extract_user_id (audio_url req)) (res_two_stems (resolve_parameters req))
              (res_model (resolve_parameters req)) 0 outs ?w1 = (Inr (entries, cleanup), w2)"
      by blast
    from process_outputs_unconfigured [OF assms(1) run]
    have urls: "\<forall>x \<in> set entries. entry_url x = None"
      and su: "storage_uploads (trace w2) = storage_uploads (trace ?w1)"
      by blast+
    have su': "storage_uploads (trace (cleanup_files cleanup w2)) = storage_uploads (trace w)"
      using su by (simp add: cleanup_files_trace storage_uploads_append)
    show ?thesis
      using res urls su' by simp
  qed
  then obtain resp w' where
    a: "separate_audio E w req = (Inr resp, w')"
    and b: "resp_status resp = ''completed''"
    and c: "\<forall>x \<in> set (resp_output_files resp). entry_url x = None"
    and d: "storage_uploads (trace w') = storage_uploads (trace w)"
    by blast
  have st: "http_status (fst (separate_audio E w req)) = 200"
    by (simp add: a http_status_def)
  from up a st b c d show ?thesis by blast
qed

theorem unconfigured_storage_completes_witness:
  "(case fst (separate_audio unconfigured_env example_world example_request) of
      Inl e \<Rightarrow> False
    | Inr resp \<Rightarrow>
        resp_status resp = ''completed''
      \<and> list_all (\<lambda>x. entry_url x = None) (resp_output_files resp))
   \<and> http_status (fst (separate_audio unconfigured_env example_world example_request)) = 200
   \<and> storage_uploads (trace (snd (separate_audio unconfigured_env example_world example_request))) = []"
proof -
  have c: "supabase unconfigured_env = None"
    by (simp add: unconfigured_env_def)
  have g: "sieve_function_get unconfigured_env ''sieve/demucs''
             = Inr (\<lambda>args. Inr (Iterable example_outputs))"
    by (simp add: unconfigured_env_def)
  have r: "(\<lambda>args. Inr (Iterable example_outputs) :: exn + run_result) (demucs_run_args example_request)
             = Inr (Iterable example_outputs)"
    by simp
  from unconfigured_storage_completes
      [where E = unconfigured_env and req = example_request and w = example_world, OF c g r]
  obtain resp w' where
    "separate_audio unconfigured_env example_world example_request = (Inr resp, w')"
    "http_status (fst (separate_audio unconfigured_env example_world example_request)) = 200"
    "resp_status resp = ''completed''"
    "\<forall>x \<in> set (resp_output_files resp). entry_url x = None"
    "storage_uploads (trace w') = storage_uploads (trace example_world)"
    by blast
  then show ?thesis
    by (simp add: list_all_iff example_world_def)
qed

text \<open>
  C7: when the remote call returns a list of outputs, the handler answers 200 with status
  \<open>completed\<close>; \<open>output_files\<close> has exactly one entry for each readable output, in
  the provider's order, carrying that output's position in the returned list and the
  stem name of that position; a position is among the entry indices exactly when its
  output is readable (it has a non-empty path that exists on disk); and the uploads
  attempted during the request are exactly one per entry, with the entry's path, stem
  name and the owner identifier.
\<close>

theorem unreadable_outputs_skipped:
  assumes "sieve_function_get E ''sieve/demucs'' = Inr demucs"
    and "demucs (demucs_run_args req) = Inr (Iterable outs)"
  shows "\<exists>resp w' paths.
           separate_audio E w req = (Inr resp, w')
         \<and> http_status (fst (separate_audio E w req)) = 200
         \<and> resp_status resp = ''completed''
         \<and> map entry_index (resp_output_files resp) = map (\<lambda>(k, f). int k) (kept_outputs w 0 outs)
         \<and> (\<forall>k<length outs.
               (int k \<in> set (map entry_index (resp_output_files resp))) = readable w (outs ! k))
         \<and> map (\<lambda>e. Inr (entry_stem_name e)) (resp_output_files resp)
             = map (\<lambda>(k, f). get_stem_name (int k) (res_two_stems (resolve_parameters req))
                                (res_model (resolve_parameters req))) (kept_outputs w 0 outs)
         \<and> map Some paths = map (\<lambda>(k, f). local_file_path f) (kept_outputs w 0 outs)
         \<and> upload_calls (trace w')
             = upload_calls (trace w)
                 @ map (\<lambda>(p, e). (p, entry_stem_name e, extract_user_id (audio_url req)))
                     (zip paths (resp_output_files resp))"
proof -
  from separate_audio_success [OF assms, of w] obtain entries cleanup w2 where
    res: "separate_audio E w req =
             (Inr \<lparr> resp_status = ''completed'', resp_message = ''Separation completed successfully'',
                    resp_output_files = entries, resp_parameters = response_parameters req \<rparr>,
              cleanup_files cleanup w2)"
    and idx: "map entry_index entries = map (\<lambda>(k, f). int k) (kept_outputs w 0 outs)"
    and nms: "map (\<lambda>e. Inr (entry_stem_name e)) entries
             = map (\<lambda>(k, f). get_stem_name (int k) (res_two_stems (resolve_parameters req))
                                (res_model (resolve_parameters req))) (kept_outputs w 0 outs)"
    and cln: "map Some cleanup = map (\<lambda>(k, f). local_file_path f) (kept_outputs w 0 outs)"
    and trc: "upload_calls (trace (cleanup_files cleanup w2))
             = upload_calls (trace w)
                 @ map (\<lambda>(p, e). (p, entry_stem_name e, extract_user_id (audio_url req))) (zip cleanup entries)"
    by blast
  let ?resp = "\<lparr> resp_status = ''completed'', resp_message = ''Separation completed successfully'',
                  resp_output_files = entries, resp_parameters = response_parameters req \<rparr>"
  have st: "http_status (fst (separate_audio E w req)) = 200"
    by (simp add: res http_status_def)
  have pos: "\<forall>k<length outs. (int k \<in> set (map entry_index (resp_output_files ?resp))) = readable w (outs ! k)"
  proof (intro allI impI)
    fix k
    assume "k < length outs"
    then have "(int k \<in> set (map (\<lambda>(j, f). int j) (kept_outputs w 0 outs))) = readable w (outs ! k)"
      by (rule kept_outputs_index)
    then show "(int k \<in> set (map entry_index (resp_output_files ?resp))) = readable w (outs ! k)"
      using idx by simp
  qed
  have "separate_audio E w req = (Inr ?resp, cleanup_files cleanup w2)
         \<and> http_status (fst (separate_audio E w req)) = 200
         \<and> resp_status ?resp = ''completed''
         \<and> map entry_index (resp_output_files ?resp) = map (\<lambda>(k, f). int k) (kept_outputs w 0 outs)
         \<and> (\<forall>k<length outs.
               (int k \<in> set (map entry_index (resp_output_files ?resp))) = readable w (outs ! k))
         \<and> map (\<lambda>e. Inr (entry_stem_name e)) (resp_output_files ?resp)
             = map (\<lambda>(k, f). get_stem_name (int k) (res_two_stems (resolve_parameters req))
                                (res_model (resolve_parameters req))) (kept_outputs w 0 outs)
         \<and> map Some cleanup = map (\<lambda>(k, f). local_file_path f) (kept_outputs w 0 outs)
         \<and> upload_calls (trace (cleanup_files cleanup w2))
             = upload_calls (trace w)
                 @ map (\<lambda>(p, e). (p, entry_stem_name e, extract_user_id (audio_url req)))
                     (zip cleanup (resp_output_files ?resp))"
    using res st pos idx nms cln trc by simp
  then show ?thesis by blast
qed

theorem unreadable_outputs_skipped_witness:
  "(case fst (separate_audio configured_env example_world example_request) of
      Inl e \<Rightarrow> False
    | Inr resp \<Rightarrow>
        map entry_index (resp_output_files resp) = [0, 2]
      \<and> map entry_stem_name (resp_output_files resp) = [''vocals'', ''bass''])
   \<and> upload_calls (trace (snd (separate_audio configured_env example_world example_request)))
       = [(''/tmp/a.wav'', ''vocals'', ''U1''), (''/tmp/c.wav'', ''bass'', ''U1'')]"
proof -
  have g: "sieve_function_get configured_env ''sieve/demucs''
             = Inr (\<lambda>args. Inr (Iterable example_outputs))"
    by (simp add: configured_env_def)
  have r: "(\<lambda>args. Inr (Iterable example_outputs) :: exn + run_result) (demucs_run_args example_request)
             = Inr (Iterable example_outputs)"
    by simp
  have n0: "get_stem_name 0 ''None'' ''htdemucs'' = Inr ''vocals''"
    by (simp add: get_stem_name_def stem_names_4_def list_index_def)
  have n2: "get_stem_name 2 ''None'' ''htdemucs'' = Inr ''bass''"
    by (simp add: get_stem_name_def stem_names_4_def list_index_def)
  from unreadable_outputs_skipped
      [where E = configured_env and req = example_request and w = example_world, OF g r]
  obtain resp w' paths where
    res: "separate_audio configured_env example_world example_request = (Inr resp, w')"
    and idx0: "map entry_index (resp_output_files resp)
                = map (\<lambda>(k, f). int k) (kept_outputs example_world 0 example_outputs)"
    and nms0: "map (\<lambda>e. Inr (entry_stem_name e)) (resp_output_files resp)
                = map (\<lambda>(k, f). get_stem_name (int k) (res_two_stems (resolve_parameters example_request))
                                (res_model (resolve_parameters example_request)))
                    (kept_outputs example_world 0 example_outputs)"
    and pth0: "map Some paths = map (\<lambda>(k, f). local_file_path f) (kept_outputs example_world 0 example_outputs)"
    and trc0: "upload_calls (trace w')
                = upload_calls (trace example_world)
                    @ map (\<lambda>(p, e). (p, entry_stem_name e, extract_user_id (audio_url example_request)))
                        (zip paths (resp_output_files resp))"
    by blast
  have idx: "map entry_index (resp_output_files resp) = [0, 2]"
    using idx0 by (simp add: example_kept)
  have nms: "map (\<lambda>e. Inr (entry_stem_name e) :: exn + string) (resp_output_files resp)
                = [Inr ''vocals'', Inr ''bass'']"
    using nms0 by (simp add: example_kept example_resolved n0 n2)
  have pth: "map Some paths = [Some ''/tmp/a.wav'', Some ''/tmp/c.wav'']"
    using pth0 by (simp add: example_kept local_file_path_def)
  have trc: "upload_calls (trace w')
                = map (\<lambda>(p, e). (p, entry_stem_name e, ''U1'')) (zip paths (resp_output_files resp))"
    using trc0 by (simp add: example_resolved example_world_def)
  from nms have names: "map entry_stem_name (resp_output_files resp) = [''vocals'', ''bass'']"
    by (auto simp: map_eq_Cons_conv)
  from pth have paths: "paths = [''/tmp/a.wav'', ''/tmp/c.wav'']"
    by (auto simp: map_eq_Cons_conv)
  from names obtain e1 e2 where es: "resp_output_files resp = [e1, e2]"
    "entry_stem_name e1 = ''vocals''" "entry_stem_name e2 = ''bass''"
    by (auto simp: map_eq_Cons_conv)
  have "upload_calls (trace w') = [(''/tmp/a.wav'', ''vocals'', ''U1''), (''/tmp/c.wav'', ''bass'', ''U1'')]"
    using trc paths es by simp
  with res idx names show ?thesis by simp
qed

text \<open>
  C10: in every successful response the \<open>parameters\<close> object holds the four resolved
  values and the request's \<open>audio_format\<close> unchanged, and the request made exactly one
  remote separation call, whose \<open>audio_format\<close> argument is the request's as well.
\<close>

theorem audio_format_passed_through:
  assumes "separate_audio E w req = (Inr resp, w')"
  shows "param_audio_format (resp_parameters resp) = audio_format req
       \<and> param_model (resp_parameters resp) = res_model (resolve_parameters req)
       \<and> param_two_stems (resp_parameters resp) = res_two_stems (resolve_parameters req)
       \<and> param_overlap (resp_parameters resp) = res_overlap (resolve_parameters req)
       \<and> param_shifts (resp_parameters resp) = res_shifts (resolve_parameters req)
       \<and> demucs_calls (trace w') = demucs_calls (trace w) @ [demucs_run_args req]
       \<and> arg_audio_format (demucs_run_args req) = audio_format req"
proof -
  let ?w1 = "w\<lparr>trace := trace w @ [DemucsRun (demucs_run_args req)]\<rparr>"
  have "resp_parameters resp = response_parameters req
        \<and> demucs_calls (trace w') = demucs_calls (trace w) @ [demucs_run_args req]"
  proof (cases "sieve_function_get E ''sieve/demucs''")
    case (Inl e)
    then have "separate_audio_body E w req = (Inl e, w)" by (rule body_get_fails)
    with assms show ?thesis by (simp add: separate_audio_def)
  next
    case (Inr demucs)
    show ?thesis
    proof (cases "demucs (demucs_run_args req)")
      case (Inl e)
      with Inr have "separate_audio_body E w req = (Inl e, ?w1)" by (rule body_run_fails)
      with assms show ?thesis by (simp add: separate_audio_def)
    next
      case run: (Inr result)
      show ?thesis
      proof (cases result)
        case NotIterable
        with run have "demucs (demucs_run_args req) = Inr NotIterable" by simp
        with Inr have "separate_audio_body E w req =
           (Inr \<lparr> resp_status = ''completed'', resp_message = ''Separation completed successfully'',
                  resp_output_files = [], resp_parameters = response_parameters req \<rparr>, ?w1)"
          by (rule body_not_iterable)
        with assms show ?thesis
          by (auto simp: separate_audio_def demucs_calls_append)
      next
        case (Iterable outs)
        with run have r: "demucs (demucs_run_args req) = Inr (Iterable outs)" by simp
        from separate_audio_success [OF Inr r, of w] assms show ?thesis
          by auto
      qed
    qed
  qed
  then show ?thesis
    by (simp add: response_parameters_def demucs_run_args_def Let_def)
qed

theorem audio_format_passed_through_witness:
  "(case fst (separate_audio unconfigured_env example_world example_request) of
      Inl e \<Rightarrow> False
    | Inr resp \<Rightarrow> param_audio_format (resp_parameters resp) = ''wav'')
   \<and> map arg_audio_format
        (demucs_calls (trace (snd (separate_audio unconfigured_env example_world example_request))))
       = [''wav'']"
proof -
  have g: "sieve_function_get unconfigured_env ''sieve/demucs''
             = Inr (\<lambda>args. Inr (Iterable example_outputs))"
    by (simp add: unconfigured_env_def)
  have r: "(\<lambda>args. Inr (Iterable example_outputs) :: exn + run_result) (demucs_run_args example_request)
             = Inr (Iterable example_outputs)"
    by simp
  from separate_audio_success
      [where E = unconfigured_env and req = example_request and w = example_world, OF g r]
  obtain resp w' where
    res: "separate_audio unconfigured_env example_world example_request = (Inr resp, w')"
    by blast
  from audio_format_passed_through [OF res] res show ?thesis
    by (simp add: example_world_def example_request_def)
qed

subsection \<open>Owner identifier\<close>

text \<open>
  C8, as stated, at a URL with two marker segments: the request has the model, two-stem
  target, quality and stems of the claim, its URL has a segment \<open>audio-files\<close> followed
  by the segment \<open>U1\<close>, and the owner identifier is \<open>U2\<close>, the segment after the
  first marker.
\<close>

theorem owner_id_second_marker_counterexample:
  "model second_marker_request = ''htdemucs''
   \<and> two_stems second_marker_request = ''None''
   \<and> quality second_marker_request = Some ''standard''
   \<and> selected_stems second_marker_request = None
   \<and> str_split CHR ''/'' (audio_url second_marker_request)
       = [''https:'', [], ''h'', ''audio-files'', ''U2'', ''audio-files'', ''U1'', ''song.mp3'']
   \<and> extract_user_id (audio_url second_marker_request) = ''U2''
   \<and> extract_user_id (audio_url second_marker_request) \<noteq> ''U1''"
  by (simp add: second_marker_request_def example_request_def extract_user_id_def)

text \<open>
  C8, amended: when the first segment of the URL equal to \<open>audio-files\<close> is followed by
  the segment \<open>U1\<close>, and the request has model \<open>htdemucs\<close>, two-stem target
  \<open>None\<close>, quality \<open>standard\<close> and no selected stems, the owner identifier is
  \<open>U1\<close>, the resolved overlap and shifts are the request's own, and model and two-stem
  target are unchanged; when no segment of the URL equals \<open>audio-files\<close>, the owner
  identifier is \<open>anonymous\<close>.
\<close>

theorem owner_id_from_first_marker:
  "(str_split CHR ''/'' (audio_url req) = pre @ ''audio-files'' # ''U1'' # rest
      \<and> ''audio-files'' \<notin> set pre
      \<and> model req = ''htdemucs'' \<and> two_stems req = ''None''
      \<and> quality req = Some ''standard'' \<and> selected_stems req = None
    \<longrightarrow> extract_user_id (audio_url req) = ''U1''
      \<and> res_overlap (resolve_parameters req) = overlap req
      \<and> res_shifts (resolve_parameters req) = shifts req
      \<and> res_model (resolve_parameters req) = ''htdemucs''
      \<and> res_two_stems (resolve_parameters req) = ''None'')
   \<and> (''audio-files'' \<notin> set (str_split CHR ''/'' (audio_url req))
    \<longrightarrow> extract_user_id (audio_url req) = ''anonymous'')"
proof (intro conjI impI)
  assume a: "str_split CHR ''/'' (audio_url req) = pre @ ''audio-files'' # ''U1'' # rest
      \<and> ''audio-files'' \<notin> set pre
      \<and> model req = ''htdemucs'' \<and> two_stems req = ''None''
      \<and> quality req = Some ''standard'' \<and> selected_stems req = None"
  then have "find_user_id (str_split CHR ''/'' (audio_url req)) = Some ''U1''"
    by (simp add: find_user_id_first)
  then show "extract_user_id (audio_url req) = ''U1''"
    by (simp add: extract_user_id_def)
  from a show "res_overlap (resolve_parameters req) = overlap req"
    by (simp add: resolve_parameters_def Let_def)
  from a show "res_shifts (resolve_parameters req) = shifts req"
    by (simp add: resolve_parameters_def Let_def)
  from a show "res_model (resolve_parameters req) = ''htdemucs''"
    by (simp add: resolve_parameters_def resolve_stem_model_def Let_def)
  from a show "res_two_stems (resolve_parameters req) = ''None''"
    by (simp add: resolve_parameters_def resolve_two_stems_def Let_def)
next
  assume "''audio-files'' \<notin> set (str_split CHR ''/'' (audio_url req))"
  then have "find_user_id (str_split CHR ''/'' (audio_url req)) = None"
    by (rule find_user_id_none)
  then show "extract_user_id (audio_url req) = ''anonymous''"
    by (simp add: extract_user_id_def)
qed

theorem owner_id_from_first_marker_witness:
  "extract_user_id (audio_url example_request) = ''U1''
   \<and> res_overlap (resolve_parameters example_request) = 0.1
   \<and> res_shifts (resolve_parameters example_request) = 0
   \<and> extract_user_id (audio_url (example_request\<lparr>audio_url := ''https://h/files/song.mp3''\<rparr>))
       = ''anonymous''"
proof -
  have s1: "str_split CHR ''/'' (audio_url example_request)
              = [''https:'', [], ''h''] @ ''audio-files'' # ''U1'' # [''song.mp3'']"
    by (simp add: example_request_def)
  have h1: "str_split CHR ''/'' (audio_url example_request)
              = [''https:'', [], ''h''] @ ''audio-files'' # ''U1'' # [''song.mp3'']
      \<and> ''audio-files'' \<notin> set [''https:'', [], ''h'']
      \<and> model example_request = ''htdemucs'' \<and> two_stems example_request = ''None''
      \<and> quality example_request = Some ''standard'' \<and> selected_stems example_request = None"
    using s1 by (simp add: example_request_def)
  have h2: "''audio-files'' \<notin> set (str_split CHR ''/''
              (audio_url (example_request\<lparr>audio_url := ''https://h/files/song.mp3''\<rparr>)))"
    by simp
  from owner_id_from_first_marker
         [where req = example_request and pre = "[''https:'', [], ''h'']" and rest = "[''song.mp3'']"]
       h1
  have p1: "extract_user_id (audio_url example_request) = ''U1''
      \<and> res_overlap (resolve_parameters example_request) = overlap example_request
      \<and> res_shifts (resolve_parameters example_request) = shifts example_request"
    by blast
  from owner_id_from_first_marker
         [where req = "example_request\<lparr>audio_url := ''https://h/files/song.mp3''\<rparr>"]
       h2
  have p2: "extract_user_id (audio_url (example_request\<lparr>audio_url := ''https://h/files/song.mp3''\<rparr>))
       = ''anonymous''"
    by blast
  from p1 p2 show ?thesis
    by (simp add: example_request_def)
qed

end
